theory Spec2Isabelle
  imports Complex_Main "HOL-Library.Signed_Division"
begin

section \<open>Data model of the storage layer (src/routes.ts, class DatabaseStorage)\<close>

text \<open>
  The storage layer talks to a relational store through drizzle-orm. A table is modelled
  as the list of its rows, in the order in which a \<open>select\<close> without \<open>orderBy\<close>
  delivers them; \<open>where\<close> is \<open>filter\<close>, an \<open>update ... where\<close> rewrites every
  matching row in place, an \<open>insert\<close> appends a row whose \<open>id\<close> is drawn from the
  table's serial counter. Nothing in the code relies on a uniqueness constraint, so the
  model has none either.

  Instants (\<open>Date\<close>) are milliseconds since the epoch. Integer columns are
  unbounded integers. The decimal columns (\<open>score\<close>, \<open>overallGrade\<close>) hold exact
  decimal numbers, modelled as rationals; of a score the operations below only ask whether
  it is at least 70 and take its integer part. The arithmetic of \<open>getDashboardData\<close>
  on IEEE doubles, whose results are not rationals computed exactly, is not part of this
  model.
\<close>

type_synonym timestamp = int

record User =
  u_id :: int
  u_username :: string
  u_totalXp :: int
  u_level :: int
  u_currentStreak :: int
  u_longestStreak :: int
  u_lastActiveDate :: "timestamp option"
  u_overallGrade :: rat
  u_updatedAt :: timestamp

record CourseProgress =
  cp_id :: int
  cp_userId :: int
  cp_topicId :: string
  cp_score :: rat
  cp_questionsCorrect :: int
  cp_questionsTotal :: int
  cp_completed :: bool
  cp_difficulty :: int
  cp_lastAccessed :: timestamp

record Achievement =
  ach_id :: int
  ach_userId :: int
  ach_achievementType :: string
  ach_title :: string
  ach_progress :: int
  ach_maxProgress :: int
  ach_unlocked :: bool
  ach_unlockedAt :: "timestamp option"
  ach_xpReward :: int

record QuizAttempt =
  qa_id :: int
  qa_userId :: int
  qa_topicId :: string
  qa_score :: rat
  qa_questionsCorrect :: int
  qa_questionsTotal :: int
  qa_difficulty :: int
  qa_timeSpent :: int
  qa_completedAt :: timestamp

record DailyActivity =
  da_id :: int
  da_userId :: int
  da_date :: timestamp
  da_questionsAnswered :: int
  da_timeSpent :: int
  da_xpEarned :: int
  da_streakMaintained :: bool

record PracticeQuestion =
  pq_id :: int
  pq_topicId :: string
  pq_difficulty :: int
  pq_content :: string

text \<open>
  The argument types of the write operations. A field of a \<open>Partial<...>\<close> object is
  either absent (\<open>None\<close>; drizzle skips it in \<open>set\<close> and uses the column default in
  \<open>values\<close>) or present.
\<close>

record PartialUser =
  pu_username :: "string option"
  pu_totalXp :: "int option"
  pu_level :: "int option"
  pu_currentStreak :: "int option"
  pu_longestStreak :: "int option"
  pu_lastActiveDate :: "timestamp option"
  pu_overallGrade :: "rat option"

record PartialInsertCourseProgress =
  pcp_userId :: "int option"
  pcp_topicId :: "string option"
  pcp_score :: "rat option"
  pcp_questionsCorrect :: "int option"
  pcp_questionsTotal :: "int option"
  pcp_completed :: "bool option"
  pcp_difficulty :: "int option"


record PartialInsertDailyActivity =
  pda_questionsAnswered :: "int option"
  pda_timeSpent :: "int option"
  pda_xpEarned :: "int option"

text \<open>
  The column defaults of the \<open>courseProgress\<close> table are declared in
  \<open>@shared/schema\<close>, which is not part of src/; they are a component of the database.
\<close>

record CourseProgressDefaults =
  cpd_score :: rat
  cpd_questionsCorrect :: int
  cpd_questionsTotal :: int
  cpd_completed :: bool
  cpd_difficulty :: int

record DB =
  users :: "User list"
  courseProgress :: "CourseProgress list"
  achievements :: "Achievement list"
  quizAttempts :: "QuizAttempt list"
  dailyActivity :: "DailyActivity list"
  practiceQuestions :: "PracticeQuestion list"
  courseProgressSeq :: int
  quizAttemptsSeq :: int
  dailyActivitySeq :: int
  courseProgressDefaults :: CourseProgressDefaults

text \<open>The only exception the storage methods raise themselves: a property read on
  \<open>undefined\<close>, when a destructured query result is empty.\<close>

datatype error = TypeError

text \<open>\<open>const [row] = ...\<close>: the first row of a result, or \<open>undefined\<close>.\<close>

definition firstRow :: "'a list \<Rightarrow> 'a option" where
  "firstRow rows = (case rows of [] \<Rightarrow> None | r # _ \<Rightarrow> Some r)"

text \<open>A field of a partial object overrides the stored value only when present.\<close>

definition orElse :: "'a option \<Rightarrow> 'a \<Rightarrow> 'a" where
  "orElse v d = (case v of None \<Rightarrow> d | Some x \<Rightarrow> x)"

text \<open>\<open>v || 0\<close> on an optional integer: \<open>undefined\<close> and \<open>0\<close> both give \<open>0\<close>.\<close>

definition orZero :: "int option \<Rightarrow> int" where
  "orZero v = (case v of None \<Rightarrow> 0 | Some n \<Rightarrow> (if n = 0 then 0 else n))"

section \<open>Users\<close>

definition getUser :: "DB \<Rightarrow> int \<Rightarrow> User option" where
  "getUser db i = firstRow (filter (\<lambda>u. u_id u = i) (users db))"

definition applyPartialUser :: "PartialUser \<Rightarrow> User \<Rightarrow> User" where
  "applyPartialUser updates u =
     u\<lparr>u_username := orElse (pu_username updates) (u_username u),
       u_totalXp := orElse (pu_totalXp updates) (u_totalXp u),
       u_level := orElse (pu_level updates) (u_level u),
       u_currentStreak := orElse (pu_currentStreak updates) (u_currentStreak u),
       u_longestStreak := orElse (pu_longestStreak updates) (u_longestStreak u),
       u_lastActiveDate :=
         (case pu_lastActiveDate updates of None \<Rightarrow> u_lastActiveDate u | Some d \<Rightarrow> Some d),
       u_overallGrade := orElse (pu_overallGrade updates) (u_overallGrade u)\<rparr>"

text \<open>\<open>updateUser\<close>: \<open>set({...updates, updatedAt: new Date()}).where(id = id)\<close>.\<close>

definition updateUserRow :: "PartialUser \<Rightarrow> timestamp \<Rightarrow> User \<Rightarrow> User" where
  "updateUserRow updates now u = (applyPartialUser updates u)\<lparr>u_updatedAt := now\<rparr>"

definition updateUser :: "DB \<Rightarrow> int \<Rightarrow> PartialUser \<Rightarrow> timestamp \<Rightarrow> DB \<times> User option" where
  "updateUser db i updates now =
     (db\<lparr>users := map (\<lambda>u. if u_id u = i then updateUserRow updates now u else u) (users db)\<rparr>,
      firstRow (map (updateUserRow updates now) (filter (\<lambda>u. u_id u = i) (users db))))"

definition noUserUpdates :: PartialUser where
  "noUserUpdates =
     \<lparr>pu_username = None, pu_totalXp = None, pu_level = None, pu_currentStreak = None,
      pu_longestStreak = None, pu_lastActiveDate = None, pu_overallGrade = None\<rparr>"

section \<open>Achievements\<close>

text \<open>
  The SQL expression \<open>FLOOR(totalXp / 100) + 1\<close> on an integer column: the division
  of two integers truncates towards zero.
\<close>

definition levelExpr :: "int \<Rightarrow> int" where
  "levelExpr totalXp = totalXp sdiv 100 + 1"

text \<open>
  The XP award is one \<open>UPDATE users SET totalXp = totalXp + r, level = FLOOR(totalXp / 100) + 1\<close>.
  The stores that drizzle's \<open>returning()\<close> supports evaluate every right-hand side of a
  \<open>SET\<close> list on the row as it was before the statement, so both expressions read the
  old \<open>totalXp\<close>.
\<close>

definition awardXp :: "int \<Rightarrow> User \<Rightarrow> User" where
  "awardXp xpReward u =
     u\<lparr>u_totalXp := u_totalXp u + xpReward, u_level := levelExpr (u_totalXp u)\<rparr>"

definition unlockRow :: "timestamp \<Rightarrow> Achievement \<Rightarrow> Achievement" where
  "unlockRow now a = a\<lparr>ach_unlocked := True, ach_unlockedAt := Some now\<rparr>"

definition unlockAchievement ::
  "DB \<Rightarrow> int \<Rightarrow> string \<Rightarrow> timestamp \<Rightarrow> DB \<times> (error + Achievement)" where
  "unlockAchievement db userId achievementType now =
     (let wanted = (\<lambda>a. ach_userId a = userId \<and> ach_achievementType a = achievementType);
          db1 = db\<lparr>achievements :=
                  map (\<lambda>a. if wanted a then unlockRow now a else a) (achievements db)\<rparr>
      in case map (unlockRow now) (filter wanted (achievements db)) of
           [] \<Rightarrow> (db1, Inl TypeError)
         | achievement # _ \<Rightarrow>
             (if ach_xpReward achievement > 0
              then db1\<lparr>users :=
                     map (\<lambda>u. if u_id u = userId then awardXp (ach_xpReward achievement) u else u)
                       (users db1)\<rparr>
              else db1,
              Inr achievement))"

section \<open>Course progress\<close>

text \<open>\<open>if (topicId)\<close>: an absent and an empty topic id both select every topic.\<close>

definition getCourseProgress :: "DB \<Rightarrow> int \<Rightarrow> string option \<Rightarrow> CourseProgress list" where
  "getCourseProgress db userId topicId =
     (case topicId of
        None \<Rightarrow> filter (\<lambda>p. cp_userId p = userId) (courseProgress db)
      | Some t \<Rightarrow>
          if t \<noteq> []
          then filter (\<lambda>p. cp_userId p = userId \<and> cp_topicId p = t) (courseProgress db)
          else filter (\<lambda>p. cp_userId p = userId) (courseProgress db))"

text \<open>\<open>set({...updates, lastAccessed: new Date()})\<close> on one row.\<close>

definition setCourseProgress ::
  "PartialInsertCourseProgress \<Rightarrow> timestamp \<Rightarrow> CourseProgress \<Rightarrow> CourseProgress" where
  "setCourseProgress updates now p =
     p\<lparr>cp_userId := orElse (pcp_userId updates) (cp_userId p),
       cp_topicId := orElse (pcp_topicId updates) (cp_topicId p),
       cp_score := orElse (pcp_score updates) (cp_score p),
       cp_questionsCorrect := orElse (pcp_questionsCorrect updates) (cp_questionsCorrect p),
       cp_questionsTotal := orElse (pcp_questionsTotal updates) (cp_questionsTotal p),
       cp_completed := orElse (pcp_completed updates) (cp_completed p),
       cp_difficulty := orElse (pcp_difficulty updates) (cp_difficulty p),
       cp_lastAccessed := now\<rparr>"

text \<open>
  \<open>values({userId, topicId, ...updates})\<close>: the spread comes last, so a \<open>userId\<close> or
  \<open>topicId\<close> carried by \<open>updates\<close> replaces the argument. Columns not given take the
  table's defaults; \<open>lastAccessed\<close> defaults to the time of the insert.
\<close>

definition newCourseProgress ::
  "DB \<Rightarrow> int \<Rightarrow> string \<Rightarrow> PartialInsertCourseProgress \<Rightarrow> timestamp \<Rightarrow> CourseProgress" where
  "newCourseProgress db userId topicId updates now =
     \<lparr>cp_id = courseProgressSeq db,
      cp_userId = orElse (pcp_userId updates) userId,
      cp_topicId = orElse (pcp_topicId updates) topicId,
      cp_score = orElse (pcp_score updates) (cpd_score (courseProgressDefaults db)),
      cp_questionsCorrect =
        orElse (pcp_questionsCorrect updates) (cpd_questionsCorrect (courseProgressDefaults db)),
      cp_questionsTotal =
        orElse (pcp_questionsTotal updates) (cpd_questionsTotal (courseProgressDefaults db)),
      cp_completed = orElse (pcp_completed updates) (cpd_completed (courseProgressDefaults db)),
      cp_difficulty = orElse (pcp_difficulty updates) (cpd_difficulty (courseProgressDefaults db)),
      cp_lastAccessed = now\<rparr>"

definition updateCourseProgress ::
  "DB \<Rightarrow> int \<Rightarrow> string \<Rightarrow> PartialInsertCourseProgress \<Rightarrow> timestamp
     \<Rightarrow> DB \<times> CourseProgress option" where
  "updateCourseProgress db userId topicId updates now =
     (let wanted = (\<lambda>p. cp_userId p = userId \<and> cp_topicId p = topicId);
          existing = take 1 (filter wanted (courseProgress db))
      in if length existing > 0
         then (db\<lparr>courseProgress :=
                   map (\<lambda>p. if wanted p then setCourseProgress updates now p else p)
                     (courseProgress db)\<rparr>,
               firstRow (map (setCourseProgress updates now) (filter wanted (courseProgress db))))
         else (let progress = newCourseProgress db userId topicId updates now
               in (db\<lparr>courseProgress := courseProgress db @ [progress],
                      courseProgressSeq := courseProgressSeq db + 1\<rparr>,
                   Some progress)))"

section \<open>Daily activity and streaks\<close>

definition msPerDay :: int where
  "msPerDay = 86400000"

text \<open>\<open>today.setHours(0, 0, 0, 0)\<close>, for a process whose local time zone is UTC.\<close>

definition startOfDay :: "timestamp \<Rightarrow> timestamp" where
  "startOfDay t = t - t mod msPerDay"

text \<open>\<open>startDate.setDate(startDate.getDate() - days)\<close>, then the rows of the user from
  \<open>startDate\<close> on, most recent first.\<close>

definition getDailyActivity :: "DB \<Rightarrow> int \<Rightarrow> int \<Rightarrow> timestamp \<Rightarrow> DailyActivity list" where
  "getDailyActivity db userId days now =
     (let startDate = now - days * msPerDay
      in sort_key (\<lambda>a. - da_date a)
           (filter (\<lambda>a. da_userId a = userId \<and> da_date a \<ge> startDate) (dailyActivity db)))"

text \<open>
  The loop of \<open>updateUserStreak\<close> over \<open>activities[i]\<close>, \<open>i = 0, 1, ...\<close>, on the
  variables \<open>(currentStreak, longestStreak, tempStreak)\<close>; the list argument is the
  part of \<open>activities\<close> from index \<open>i\<close> on.
\<close>

fun streakLoop :: "DailyActivity list \<Rightarrow> nat \<Rightarrow> int \<times> int \<times> int \<Rightarrow> int \<times> int \<times> int" where
  "streakLoop [] i s = s"
| "streakLoop (a # rest) i (currentStreak, longestStreak, tempStreak) =
     (if da_streakMaintained a
      then streakLoop rest (i + 1)
             (if i = 0 then tempStreak + 1 else currentStreak, longestStreak, tempStreak + 1)
      else streakLoop rest (i + 1) (currentStreak, max longestStreak tempStreak, 0))"

definition updateUserStreak :: "DB \<Rightarrow> int \<Rightarrow> timestamp \<Rightarrow> DB" where
  "updateUserStreak db userId now =
     (let activities = getDailyActivity db userId 30 now
      in case streakLoop activities 0 (0, 0, 0) of
           (currentStreak, longestStreak, tempStreak) \<Rightarrow>
             fst (updateUser db userId
                    (noUserUpdates\<lparr>pu_currentStreak := Some currentStreak,
                                   pu_longestStreak := Some (max longestStreak tempStreak),
                                   pu_lastActiveDate := Some now\<rparr>)
                    now))"

text \<open>The additive \<open>set\<close> of the update branch, on one row.\<close>

definition addActivity :: "PartialInsertDailyActivity \<Rightarrow> DailyActivity \<Rightarrow> DailyActivity" where
  "addActivity activity a =
     a\<lparr>da_questionsAnswered := da_questionsAnswered a + orZero (pda_questionsAnswered activity),
       da_timeSpent := da_timeSpent a + orZero (pda_timeSpent activity),
       da_xpEarned := da_xpEarned a + orZero (pda_xpEarned activity),
       da_streakMaintained := True\<rparr>"

definition newDailyActivity ::
  "DB \<Rightarrow> int \<Rightarrow> PartialInsertDailyActivity \<Rightarrow> timestamp \<Rightarrow> DailyActivity" where
  "newDailyActivity db userId activity today =
     \<lparr>da_id = dailyActivitySeq db, da_userId = userId, da_date = today,
      da_questionsAnswered = orZero (pda_questionsAnswered activity),
      da_timeSpent = orZero (pda_timeSpent activity),
      da_xpEarned = orZero (pda_xpEarned activity),
      da_streakMaintained = True\<rparr>"

definition updateDailyActivity ::
  "DB \<Rightarrow> int \<Rightarrow> PartialInsertDailyActivity \<Rightarrow> timestamp \<Rightarrow> DB \<times> DailyActivity option" where
  "updateDailyActivity db userId activity now =
     (let today = startOfDay now;
          existing = take 1 (filter (\<lambda>a. da_userId a = userId \<and> da_date a = today)
                               (dailyActivity db))
      in case existing of
           e # _ \<Rightarrow>
             (db\<lparr>dailyActivity :=
                   map (\<lambda>a. if da_id a = da_id e then addActivity activity a else a)
                     (dailyActivity db)\<rparr>,
              firstRow (map (addActivity activity)
                          (filter (\<lambda>a. da_id a = da_id e) (dailyActivity db))))
         | [] \<Rightarrow>
             (let newActivity = newDailyActivity db userId activity today;
                  db1 = db\<lparr>dailyActivity := dailyActivity db @ [newActivity],
                           dailyActivitySeq := dailyActivitySeq db + 1\<rparr>
              in (updateUserStreak db1 userId now, Some newActivity)))"

section \<open>Quiz attempts\<close>



section \<open>Practice questions\<close>

text \<open>\<open>if (difficulty)\<close>: an absent difficulty and the number \<open>0\<close> are both falsy.\<close>

definition getPracticeQuestions :: "DB \<Rightarrow> string \<Rightarrow> int option \<Rightarrow> PracticeQuestion list" where
  "getPracticeQuestions db topicId difficulty =
     (case difficulty of
        None \<Rightarrow> filter (\<lambda>q. pq_topicId q = topicId) (practiceQuestions db)
      | Some d \<Rightarrow>
          if d \<noteq> 0
          then filter (\<lambda>q. pq_topicId q = topicId \<and> pq_difficulty q = d) (practiceQuestions db)
          else filter (\<lambda>q. pq_topicId q = topicId) (practiceQuestions db))"

section \<open>Example database\<close>

definition user1 :: User where
  "user1 = \<lparr>u_id = 1, u_username = ''ada'', u_totalXp = 250, u_level = 3,
            u_currentStreak = 0, u_longestStreak = 0, u_lastActiveDate = None,
            u_overallGrade = 0, u_updatedAt = 0\<rparr>"

definition numberMaster :: Achievement where
  "numberMaster = \<lparr>ach_id = 1, ach_userId = 1, ach_achievementType = ''number_master'',
     ach_title = ''Number Master'', ach_progress = 0, ach_maxProgress = 1,
     ach_unlocked = False, ach_unlockedAt = None, ach_xpReward = 100\<rparr>"

definition db0 :: DB where
  "db0 = \<lparr>users = [user1], courseProgress = [], achievements = [numberMaster],
          quizAttempts = [], dailyActivity = [], practiceQuestions = [],
          courseProgressSeq = 1, quizAttemptsSeq = 1, dailyActivitySeq = 1,
          courseProgressDefaults =
            \<lparr>cpd_score = 0, cpd_questionsCorrect = 0, cpd_questionsTotal = 0,
             cpd_completed = False, cpd_difficulty = 1\<rparr>\<rparr>"


definition activityRow :: "int \<Rightarrow> int \<Rightarrow> bool \<Rightarrow> DailyActivity" where
  "activityRow i day maintained =
     \<lparr>da_id = i, da_userId = 1, da_date = day * msPerDay, da_questionsAnswered = 1,
      da_timeSpent = 1, da_xpEarned = 1, da_streakMaintained = maintained\<rparr>"

text \<open>
  Four days of activity of user 1, oldest first. Read most recent first, the
  \<open>streakMaintained\<close> flags of \<open>dbStreakA\<close> are \<open>[true, true, false, true]\<close> and
  those of \<open>dbStreakB\<close> are \<open>[false, true, true, true]\<close>.
\<close>

definition dbStreakA :: DB where
  "dbStreakA = db0\<lparr>dailyActivity :=
     [activityRow 1 10 True, activityRow 2 11 False, activityRow 3 12 True, activityRow 4 13 True]\<rparr>"

definition dbStreakB :: DB where
  "dbStreakB = db0\<lparr>dailyActivity :=
     [activityRow 1 10 True, activityRow 2 11 True, activityRow 3 12 True, activityRow 4 13 False]\<rparr>"

definition noonDay13 :: timestamp where
  "noonDay13 = 13 * msPerDay + 43200000"

definition dbActive :: DB where
  "dbActive = db0\<lparr>dailyActivity := [activityRow 1 12 True, activityRow 2 13 True],
                  dailyActivitySeq := 3\<rparr>"

definition dbUnlocked :: DB where
  "dbUnlocked = fst (unlockAchievement db0 1 ''number_master'' 1000)"

definition answered :: "int \<Rightarrow> PartialInsertDailyActivity" where
  "answered n = \<lparr>pda_questionsAnswered = Some n, pda_timeSpent = None, pda_xpEarned = None\<rparr>"

definition scoreOnly :: "rat \<Rightarrow> PartialInsertCourseProgress" where
  "scoreOnly s =
     \<lparr>pcp_userId = None, pcp_topicId = None, pcp_score = Some s, pcp_questionsCorrect = None,
      pcp_questionsTotal = None, pcp_completed = None, pcp_difficulty = None\<rparr>"

definition retopic :: PartialInsertCourseProgress where
  "retopic = (scoreOnly 80)\<lparr>pcp_topicId := Some ''geometry''\<rparr>"


definition questionRow :: "int \<Rightarrow> string \<Rightarrow> int \<Rightarrow> PracticeQuestion" where
  "questionRow i topic difficulty =
     \<lparr>pq_id = i, pq_topicId = topic, pq_difficulty = difficulty, pq_content = ''2 + 2 = ?''\<rparr>"

definition dbQuestions :: DB where
  "dbQuestions = db0\<lparr>practiceQuestions :=
     [questionRow 1 ''algebra'' 1, questionRow 2 ''geometry'' 1, questionRow 3 ''algebra'' 0,
      questionRow 4 ''algebra'' 2]\<rparr>"

section \<open>Auxiliary facts\<close>

lemma take1_nonempty: "(0 < length (take 1 xs)) = (xs \<noteq> [])"
  by (cases xs) simp_all

lemma filter_map_same_test:
  assumes "\<And>x. P (g x) = P x"
  shows "filter P (map (\<lambda>x. if Q x then g x else x) xs) = map (\<lambda>x. if Q x then g x else x) (filter P xs)"
  by (induction xs) (simp_all add: assms)

lemma users_updateUser:
  "users (fst (updateUser db i updates now)) =
     map (\<lambda>u. if u_id u = i then updateUserRow updates now u else u) (users db)"
  by (simp add: updateUser_def)

lemma updateUserRow_streak:
  "updateUserRow (noUserUpdates\<lparr>pu_currentStreak := Some c, pu_longestStreak := Some l,
       pu_lastActiveDate := Some d\<rparr>) now u
   = u\<lparr>u_currentStreak := c, u_longestStreak := l, u_lastActiveDate := Some d, u_updatedAt := now\<rparr>"
  by (simp add: updateUserRow_def applyPartialUser_def noUserUpdates_def orElse_def)

subsection \<open>Frames: what an operation leaves alone\<close>

lemma users_updateUserStreak_frame:
  "dailyActivity (updateUserStreak db userId now) = dailyActivity db"
  by (simp add: updateUserStreak_def updateUser_def split: prod.splits)




subsection \<open>The two branches of the upserts\<close>

lemma updateCourseProgress_insert_branch:
  assumes "filter (\<lambda>p. cp_userId p = userId \<and> cp_topicId p = topicId) (courseProgress db) = []"
  shows "courseProgress (fst (updateCourseProgress db userId topicId updates now))
           = courseProgress db @ [newCourseProgress db userId topicId updates now]"
  using assms by (simp add: updateCourseProgress_def Let_def)

lemma updateCourseProgress_update_branch:
  assumes "filter (\<lambda>p. cp_userId p = userId \<and> cp_topicId p = topicId) (courseProgress db) \<noteq> []"
  shows "courseProgress (fst (updateCourseProgress db userId topicId updates now))
           = map (\<lambda>p. if cp_userId p = userId \<and> cp_topicId p = topicId
                       then setCourseProgress updates now p else p) (courseProgress db)"
  using assms by (simp add: updateCourseProgress_def Let_def take1_nonempty)

lemma dailyActivity_update_branch:
  assumes "filter (\<lambda>a. da_userId a = userId \<and> da_date a = startOfDay now) (dailyActivity db) = e # rest"
  shows "dailyActivity (fst (updateDailyActivity db userId activity now))
           = map (\<lambda>a. if da_id a = da_id e then addActivity activity a else a) (dailyActivity db)"
  using assms by (simp add: updateDailyActivity_def Let_def)

lemma dailyActivity_insert_branch:
  assumes "filter (\<lambda>a. da_userId a = userId \<and> da_date a = startOfDay now) (dailyActivity db) = []"
  shows "dailyActivity (fst (updateDailyActivity db userId activity now))
           = dailyActivity db @ [newDailyActivity db userId activity (startOfDay now)]"
  using assms by (simp add: updateDailyActivity_def Let_def users_updateUserStreak_frame)

lemma addActivity_explicit:
  "addActivity activity a =
     a\<lparr>da_questionsAnswered :=
         da_questionsAnswered a + (case pda_questionsAnswered activity of None \<Rightarrow> 0 | Some n \<Rightarrow> n),
       da_timeSpent := da_timeSpent a + (case pda_timeSpent activity of None \<Rightarrow> 0 | Some n \<Rightarrow> n),
       da_xpEarned := da_xpEarned a + (case pda_xpEarned activity of None \<Rightarrow> 0 | Some n \<Rightarrow> n),
       da_streakMaintained := True\<rparr>"
  by (simp add: addActivity_def orZero_def split: option.splits)

lemma filter_day_addActivity:
  "filter (\<lambda>a. da_userId a = userId \<and> da_date a = day)
     (map (\<lambda>a. if da_id a = i then addActivity activity a else a) rows)
   = map (\<lambda>a. if da_id a = i then addActivity activity a else a)
       (filter (\<lambda>a. da_userId a = userId \<and> da_date a = day) rows)"
  by (rule filter_map_same_test) (simp add: addActivity_def)

subsection \<open>Facts about the example data\<close>

lemma startOfDay_noonDay13: "startOfDay noonDay13 = 13 * msPerDay"
  by (simp add: startOfDay_def noonDay13_def msPerDay_def)

lemma user1_db0: "filter (\<lambda>u. u_id u = 1) (users db0) = user1 # []"
  by (simp add: db0_def user1_def)

lemma achievements_db0:
  "filter (\<lambda>a. ach_userId a = 1 \<and> ach_achievementType a = ''number_master'') (achievements db0)
     = numberMaster # []"
  by (simp add: db0_def numberMaster_def)

lemma no_algebra_db0:
  "filter (\<lambda>p. cp_userId p = 1 \<and> cp_topicId p = ''algebra'') (courseProgress db0) = []"
  by (simp add: db0_def)

lemma today_dbActive:
  "filter (\<lambda>a. da_userId a = 1 \<and> da_date a = startOfDay noonDay13) (dailyActivity dbActive)
     = activityRow 2 13 True # []"
  by (simp add: startOfDay_noonDay13 dbActive_def db0_def activityRow_def msPerDay_def)

lemma today_db0:
  "filter (\<lambda>a. da_userId a = 1 \<and> da_date a = startOfDay noonDay13) (dailyActivity db0) = []"
  by (simp add: db0_def)

lemma getDailyActivity_dbStreakB:
  "map da_streakMaintained (getDailyActivity dbStreakB 1 30 noonDay13) = [False, True, True, True]"
  by (simp add: getDailyActivity_def dbStreakB_def db0_def activityRow_def noonDay13_def msPerDay_def)

lemma algebra_dbQuestions:
  "map pq_id (getPracticeQuestions dbQuestions ''algebra'' None) = [1, 3, 4]"
  by (simp add: getPracticeQuestions_def dbQuestions_def db0_def questionRow_def)

section \<open>Unlocking an achievement\<close>

text \<open>
  C1. After \<open>unlockAchievement\<close> on an achievement with \<open>xpReward > 0\<close> the level
  is meant to be \<open>floor(totalXp/100)+1\<close> of the incremented \<open>totalXp\<close>: a user with
  \<open>totalXp = 250\<close> who unlocks a reward of 100 should end with \<open>totalXp = 350\<close> and
  level 4. The code leaves that user with \<open>totalXp = 350\<close> and level 3, the level of the
  \<open>totalXp\<close> of before the increment.
\<close>

theorem unlockAchievement_level_from_old_totalXp:
  "map_option u_totalXp (getUser (fst (unlockAchievement db0 1 ''number_master'' 1000)) 1) = Some 350
   \<and> map_option u_level (getUser (fst (unlockAchievement db0 1 ''number_master'' 1000)) 1) = Some 3"
  by (simp add: unlockAchievement_def db0_def user1_def numberMaster_def unlockRow_def
      awardXp_def levelExpr_def signed_divide_int_def getUser_def firstRow_def Let_def)

lemma filter_unlocked:
  "filter (\<lambda>a. ach_userId a = userId \<and> ach_achievementType a = ty)
     (map (\<lambda>a. if ach_userId a = userId \<and> ach_achievementType a = ty then unlockRow now a else a) xs)
   = map (unlockRow now) (filter (\<lambda>a. ach_userId a = userId \<and> ach_achievementType a = ty) xs)"
  by (induction xs) (simp_all add: unlockRow_def)

lemma unlockAchievement_once:
  assumes "filter (\<lambda>a. ach_userId a = userId \<and> ach_achievementType a = ty) (achievements db) = a # rest"
    and "ach_xpReward a > 0"
  shows "users (fst (unlockAchievement db userId ty now))
           = map (\<lambda>u. if u_id u = userId then awardXp (ach_xpReward a) u else u) (users db)"
    and "filter (\<lambda>a. ach_userId a = userId \<and> ach_achievementType a = ty)
           (achievements (fst (unlockAchievement db userId ty now)))
         = unlockRow now a # map (unlockRow now) rest"
  using assms by (simp_all add: unlockAchievement_def Let_def unlockRow_def filter_unlocked)

text \<open>
  C8 (as the code has it). \<open>unlockAchievement\<close> does not look at \<open>unlocked\<close>: whenever
  the achievement of the user has \<open>xpReward > 0\<close>, every invocation adds \<open>xpReward\<close> to
  the user's \<open>totalXp\<close>, also when the achievement is already unlocked. After the first
  invocation the achievement is unlocked and \<open>totalXp\<close> has grown by \<open>xpReward\<close>; after
  the second it has grown by twice \<open>xpReward\<close>.
\<close>

theorem unlockAchievement_again_awards_again:
  assumes "filter (\<lambda>a. ach_userId a = userId \<and> ach_achievementType a = ty) (achievements db) = a # rest"
    and "ach_xpReward a > 0"
  shows "map ach_unlocked (filter (\<lambda>a. ach_userId a = userId \<and> ach_achievementType a = ty)
             (achievements (fst (unlockAchievement db userId ty now1))))
           = map (\<lambda>a. True) (a # rest)
         \<and> map u_totalXp (users (fst (unlockAchievement db userId ty now1)))
           = map (\<lambda>u. if u_id u = userId then u_totalXp u + ach_xpReward a else u_totalXp u) (users db)
         \<and> map u_totalXp (users (fst (unlockAchievement
                 (fst (unlockAchievement db userId ty now1)) userId ty now2)))
           = map (\<lambda>u. if u_id u = userId then u_totalXp u + 2 * ach_xpReward a else u_totalXp u) (users db)"
proof -
  let ?db1 = "fst (unlockAchievement db userId ty now1)"
  have first: "users ?db1 = map (\<lambda>u. if u_id u = userId then awardXp (ach_xpReward a) u else u) (users db)"
    and unlocked: "filter (\<lambda>a. ach_userId a = userId \<and> ach_achievementType a = ty) (achievements ?db1)
                    = unlockRow now1 a # map (unlockRow now1) rest"
    using unlockAchievement_once [OF assms] by simp_all
  have reward: "ach_xpReward (unlockRow now1 a) > 0" "ach_xpReward (unlockRow now1 a) = ach_xpReward a"
    using assms(2) by (simp_all add: unlockRow_def)
  have second: "users (fst (unlockAchievement ?db1 userId ty now2))
      = map (\<lambda>u. if u_id u = userId then awardXp (ach_xpReward a) u else u) (users ?db1)"
    using unlockAchievement_once(1) [OF unlocked reward(1)] reward(2) by simp
  have "map ach_unlocked (filter (\<lambda>a. ach_userId a = userId \<and> ach_achievementType a = ty)
             (achievements ?db1)) = map (\<lambda>a. True) (a # rest)"
    by (simp add: unlocked unlockRow_def)
  moreover have "map u_totalXp (users ?db1)
           = map (\<lambda>u. if u_id u = userId then u_totalXp u + ach_xpReward a else u_totalXp u) (users db)"
    by (simp add: first awardXp_def)
  moreover have "map u_totalXp (users (fst (unlockAchievement ?db1 userId ty now2)))
           = map (\<lambda>u. if u_id u = userId then u_totalXp u + 2 * ach_xpReward a else u_totalXp u) (users db)"
    by (simp add: second first awardXp_def)
  ultimately show ?thesis by simp
qed

theorem unlockAchievement_again_awards_again_witness:
  "filter (\<lambda>a. ach_userId a = 1 \<and> ach_achievementType a = ''number_master'') (achievements db0)
     = numberMaster # []
   \<and> ach_xpReward numberMaster > 0
   \<and> map u_totalXp (users (fst (unlockAchievement db0 1 ''number_master'' 1000))) = [350]
   \<and> map u_totalXp (users (fst (unlockAchievement
        (fst (unlockAchievement db0 1 ''number_master'' 1000)) 1 ''number_master'' 2000))) = [450]"
proof -
  have r: "ach_xpReward numberMaster > 0" by (simp add: numberMaster_def)
  from unlockAchievement_again_awards_again [OF achievements_db0 r, of 1000 2000]
  show ?thesis using achievements_db0 r
    by (simp add: db0_def user1_def numberMaster_def)
qed

text \<open>
  C8 as stated, that a second invocation on an unlocked achievement does not increment
  \<open>totalXp\<close> again, fails: the achievement of \<open>dbUnlocked\<close> is unlocked and the user has
  350 XP, and unlocking once more gives 450.
\<close>

theorem unlockAchievement_twice_counterexample:
  "map ach_unlocked (achievements dbUnlocked) = [True]
   \<and> map_option u_totalXp (getUser dbUnlocked 1) = Some 350
   \<and> map_option u_totalXp (getUser (fst (unlockAchievement dbUnlocked 1 ''number_master'' 2000)) 1)
       = Some 450"
  by (simp add: dbUnlocked_def unlockAchievement_def db0_def user1_def numberMaster_def
      unlockRow_def awardXp_def getUser_def firstRow_def Let_def)

section \<open>The streak scan\<close>

lemma streakLoop_FTTT:
  assumes "map da_streakMaintained activities = [False, True, True, True]"
  shows "streakLoop activities 0 (0, 0, 0) = (0, 0, 3)"
proof -
  from assms obtain w x y z where "activities = [w, x, y, z]"
    "\<not> da_streakMaintained w" "da_streakMaintained x" "da_streakMaintained y" "da_streakMaintained z"
    by (auto simp: map_eq_Cons_conv)
  then show ?thesis by simp
qed

lemma streakLoop_later_keeps_current:
  "i > 0 \<Longrightarrow> fst (streakLoop activities i (c, l, t)) = c"
  by (induction activities arbitrary: i l t) simp_all

text \<open>
  The loop assigns \<open>currentStreak\<close> at index 0 only, where the run length is 1 at most:
  whatever the activities, \<open>currentStreak\<close> ends as 1 if the most recent day is maintained
  and as 0 otherwise.
\<close>

lemma streakLoop_current_at_most_1:
  "fst (streakLoop activities 0 (0, 0, 0)) = (case activities of [] \<Rightarrow> 0 | a # _ \<Rightarrow> if da_streakMaintained a then 1 else 0)"
  by (cases activities) (simp_all add: streakLoop_later_keeps_current)

text \<open>
  C2. For the flags \<open>[true, true, false, true]\<close>, most recent first, the user record
  is meant to get \<open>currentStreak = 2\<close> and \<open>longestStreak = 2\<close>. On \<open>dbStreakA\<close>, whose
  activities have these flags, \<open>updateUserStreak\<close> stores \<open>currentStreak = 1\<close> and
  \<open>longestStreak = 2\<close>.
\<close>

theorem updateUserStreak_TTFT_currentStreak_1:
  "map da_streakMaintained (getDailyActivity dbStreakA 1 30 noonDay13) = [True, True, False, True]
   \<and> map_option u_currentStreak (getUser (updateUserStreak dbStreakA 1 noonDay13) 1) = Some 1
   \<and> map_option u_longestStreak (getUser (updateUserStreak dbStreakA 1 noonDay13) 1) = Some 2"
  by (simp add: updateUserStreak_def getDailyActivity_def dbStreakA_def db0_def activityRow_def
      noonDay13_def msPerDay_def users_updateUser updateUserRow_streak user1_def getUser_def
      firstRow_def)

text \<open>
  C3. When the daily activities of the last 30 days, most recent first, have the flags
  \<open>[false, true, true, true]\<close>, \<open>updateUserStreak\<close> sets \<open>currentStreak = 0\<close> and
  \<open>longestStreak = 3\<close> (and \<open>lastActiveDate\<close>, \<open>updatedAt\<close> to the current time) on
  every row of the user, and leaves the other users alone.
\<close>

theorem updateUserStreak_FTTT:
  assumes "map da_streakMaintained (getDailyActivity db userId 30 now) = [False, True, True, True]"
  shows "users (updateUserStreak db userId now) =
           map (\<lambda>u. if u_id u = userId
                     then u\<lparr>u_currentStreak := 0, u_longestStreak := 3,
                            u_lastActiveDate := Some now, u_updatedAt := now\<rparr>
                     else u) (users db)"
  using streakLoop_FTTT [OF assms]
  by (simp add: updateUserStreak_def users_updateUser updateUserRow_streak)

theorem updateUserStreak_FTTT_witness:
  "map da_streakMaintained (getDailyActivity dbStreakB 1 30 noonDay13) = [False, True, True, True]
   \<and> map (\<lambda>u. (u_currentStreak u, u_longestStreak u)) (users (updateUserStreak dbStreakB 1 noonDay13)) = [(0, 3)]"
  using updateUserStreak_FTTT [of dbStreakB 1 noonDay13] getDailyActivity_dbStreakB
  by (simp add: dbStreakB_def db0_def user1_def)

section \<open>Saving a quiz attempt\<close>



section \<open>Daily activity\<close>

text \<open>
  C6. When the user already has a row for today, \<open>updateDailyActivity\<close> adds the given
  \<open>questionsAnswered\<close>, \<open>timeSpent\<close> and \<open>xpEarned\<close> (0 for a missing field) to the
  first such row (that is, to the rows with its id), sets its \<open>streakMaintained\<close>, and
  inserts nothing: the user has as many rows for today as before. In particular, from a
  state without a row for today, two calls on the same day with \<open>questionsAnswered\<close>
  5 and then 3 leave exactly one row for that day, with \<open>questionsAnswered = 8\<close>.
\<close>

theorem updateDailyActivity_existing_accumulates:
  "(filter (\<lambda>a. da_userId a = userId \<and> da_date a = startOfDay now) (dailyActivity db) = e # rest \<longrightarrow>
      dailyActivity (fst (updateDailyActivity db userId activity now))
        = map (\<lambda>a. if da_id a = da_id e
                    then a\<lparr>da_questionsAnswered := da_questionsAnswered a
                              + (case pda_questionsAnswered activity of None \<Rightarrow> 0 | Some n \<Rightarrow> n),
                           da_timeSpent := da_timeSpent a
                              + (case pda_timeSpent activity of None \<Rightarrow> 0 | Some n \<Rightarrow> n),
                           da_xpEarned := da_xpEarned a
                              + (case pda_xpEarned activity of None \<Rightarrow> 0 | Some n \<Rightarrow> n),
                           da_streakMaintained := True\<rparr>
                    else a) (dailyActivity db)
      \<and> length (filter (\<lambda>a. da_userId a = userId \<and> da_date a = startOfDay now)
                  (dailyActivity (fst (updateDailyActivity db userId activity now))))
          = length (e # rest))
   \<and> (filter (\<lambda>a. da_userId a = userId \<and> da_date a = startOfDay now1) (dailyActivity db) = []
        \<and> startOfDay now2 = startOfDay now1
        \<and> pda_questionsAnswered first = Some 5 \<and> pda_questionsAnswered second = Some 3 \<longrightarrow>
      map da_questionsAnswered
        (filter (\<lambda>a. da_userId a = userId \<and> da_date a = startOfDay now1)
           (dailyActivity (fst (updateDailyActivity
               (fst (updateDailyActivity db userId first now1)) userId second now2))))
        = [8])"
proof (intro conjI impI)
  assume ex: "filter (\<lambda>a. da_userId a = userId \<and> da_date a = startOfDay now) (dailyActivity db) = e # rest"
  show "dailyActivity (fst (updateDailyActivity db userId activity now))
        = map (\<lambda>a. if da_id a = da_id e
                    then a\<lparr>da_questionsAnswered := da_questionsAnswered a
                              + (case pda_questionsAnswered activity of None \<Rightarrow> 0 | Some n \<Rightarrow> n),
                           da_timeSpent := da_timeSpent a
                              + (case pda_timeSpent activity of None \<Rightarrow> 0 | Some n \<Rightarrow> n),
                           da_xpEarned := da_xpEarned a
                              + (case pda_xpEarned activity of None \<Rightarrow> 0 | Some n \<Rightarrow> n),
                           da_streakMaintained := True\<rparr>
                    else a) (dailyActivity db)"
    unfolding dailyActivity_update_branch [OF ex] addActivity_explicit ..
  show "length (filter (\<lambda>a. da_userId a = userId \<and> da_date a = startOfDay now)
                  (dailyActivity (fst (updateDailyActivity db userId activity now))))
          = length (e # rest)"
    unfolding dailyActivity_update_branch [OF ex] filter_day_addActivity ex by simp
next
  assume h: "filter (\<lambda>a. da_userId a = userId \<and> da_date a = startOfDay now1) (dailyActivity db) = []
        \<and> startOfDay now2 = startOfDay now1
        \<and> pda_questionsAnswered first = Some 5 \<and> pda_questionsAnswered second = Some 3"
  let ?new = "newDailyActivity db userId first (startOfDay now1)"
  let ?db1 = "fst (updateDailyActivity db userId first now1)"
  have rows1: "dailyActivity ?db1 = dailyActivity db @ [?new]"
    using h by (simp add: dailyActivity_insert_branch)
  have today1: "filter (\<lambda>a. da_userId a = userId \<and> da_date a = startOfDay now2) (dailyActivity ?db1)
                  = ?new # []"
    using h by (simp add: rows1 newDailyActivity_def)
  have "filter (\<lambda>a. da_userId a = userId \<and> da_date a = startOfDay now1)
           (dailyActivity (fst (updateDailyActivity ?db1 userId second now2)))
        = [addActivity second ?new]"
    using h today1
    by (simp add: dailyActivity_update_branch [OF today1] filter_day_addActivity)
  then show "map da_questionsAnswered
        (filter (\<lambda>a. da_userId a = userId \<and> da_date a = startOfDay now1)
           (dailyActivity (fst (updateDailyActivity ?db1 userId second now2))))
        = [8]"
    using h by (simp add: addActivity_def newDailyActivity_def orZero_def)
qed

theorem updateDailyActivity_existing_accumulates_witness:
  "filter (\<lambda>a. da_userId a = 1 \<and> da_date a = startOfDay noonDay13) (dailyActivity dbActive)
     = activityRow 2 13 True # []
   \<and> map da_questionsAnswered (dailyActivity (fst (updateDailyActivity dbActive 1 (answered 3) noonDay13)))
       = [1, 4]
   \<and> filter (\<lambda>a. da_userId a = 1 \<and> da_date a = startOfDay noonDay13) (dailyActivity db0) = []
   \<and> map da_questionsAnswered
        (filter (\<lambda>a. da_userId a = 1 \<and> da_date a = startOfDay noonDay13)
           (dailyActivity (fst (updateDailyActivity
               (fst (updateDailyActivity db0 1 (answered 5) noonDay13)) 1 (answered 3) noonDay13))))
        = [8]"
  using updateDailyActivity_existing_accumulates
          [of 1 noonDay13 dbActive "activityRow 2 13 True" "[]" "answered 3"
              noonDay13 noonDay13 "answered 5" "answered 3"]
    updateDailyActivity_existing_accumulates
          [of 1 noonDay13 db0 "activityRow 2 13 True" "[]" "answered 3"
              noonDay13 noonDay13 "answered 5" "answered 3"]
    today_dbActive today_db0
  by (simp add: answered_def dbActive_def db0_def activityRow_def)

text \<open>
  C9. A call of \<open>updateDailyActivity\<close> that finds a row of the user for today leaves
  the \<open>users\<close> table as it is, so \<open>currentStreak\<close>, \<open>longestStreak\<close> and
  \<open>lastActiveDate\<close> of every user are unchanged. A call that finds none inserts the row
  and then runs \<open>updateUserStreak\<close> on the result, which stamps \<open>lastActiveDate\<close> of
  the user with the current time.
\<close>

theorem updateDailyActivity_streak_only_on_insert:
  "users (fst (updateDailyActivity db userId activity now)) =
     (if filter (\<lambda>a. da_userId a = userId \<and> da_date a = startOfDay now) (dailyActivity db) = []
      then users (updateUserStreak
                   (db\<lparr>dailyActivity :=
                         dailyActivity db @ [newDailyActivity db userId activity (startOfDay now)],
                       dailyActivitySeq := dailyActivitySeq db + 1\<rparr>)
                   userId now)
      else users db)
   \<and> (if filter (\<lambda>a. da_userId a = userId \<and> da_date a = startOfDay now) (dailyActivity db) = []
      then map u_lastActiveDate
             (filter (\<lambda>u. u_id u = userId) (users (fst (updateDailyActivity db userId activity now))))
           = map (\<lambda>u. Some now) (filter (\<lambda>u. u_id u = userId) (users db))
      else map (\<lambda>u. (u_currentStreak u, u_longestStreak u, u_lastActiveDate u))
             (users (fst (updateDailyActivity db userId activity now)))
           = map (\<lambda>u. (u_currentStreak u, u_longestStreak u, u_lastActiveDate u)) (users db))"
proof (cases "filter (\<lambda>a. da_userId a = userId \<and> da_date a = startOfDay now) (dailyActivity db)")
  case Nil
  have stamped: "map u_lastActiveDate (filter (\<lambda>u. u_id u = userId) (users (updateUserStreak d userId now)))
      = map (\<lambda>u. Some now) (filter (\<lambda>u. u_id u = userId) (users d))" for d
    by (induction "users d")
      (simp_all add: updateUserStreak_def users_updateUser updateUserRow_streak filter_map comp_def
        split: prod.splits)
  show ?thesis
    using Nil stamped by (simp add: updateDailyActivity_def Let_def)
next
  case (Cons e rest)
  then show ?thesis
    by (simp add: updateDailyActivity_def Let_def)
qed

theorem updateDailyActivity_streak_only_on_insert_witness:
  "filter (\<lambda>a. da_userId a = 1 \<and> da_date a = startOfDay noonDay13) (dailyActivity dbActive) \<noteq> []
   \<and> users (fst (updateDailyActivity dbActive 1 (answered 3) noonDay13)) = users dbActive
   \<and> filter (\<lambda>a. da_userId a = 1 \<and> da_date a = startOfDay noonDay13) (dailyActivity db0) = []
   \<and> map u_lastActiveDate
        (filter (\<lambda>u. u_id u = 1) (users (fst (updateDailyActivity db0 1 (answered 5) noonDay13))))
       = [Some noonDay13]"
proof -
  have kept: "users (fst (updateDailyActivity dbActive 1 (answered 3) noonDay13)) = users dbActive"
    using updateDailyActivity_streak_only_on_insert [of dbActive 1 "answered 3" noonDay13, THEN conjunct1]
    by (simp add: today_dbActive)
  have stamped: "map u_lastActiveDate
        (filter (\<lambda>u. u_id u = 1) (users (fst (updateDailyActivity db0 1 (answered 5) noonDay13))))
       = [Some noonDay13]"
    using updateDailyActivity_streak_only_on_insert [of db0 1 "answered 5" noonDay13, THEN conjunct2]
    by (simp add: today_db0 user1_db0)
  show ?thesis
    using kept stamped by (simp add: today_dbActive today_db0)
qed

section \<open>Course progress upsert\<close>

text \<open>
  C7 (as the code has it). Let there be no course-progress row for \<open>(userId, topicId)\<close>,
  and let neither of two \<open>updates\<close> objects carry a \<open>userId\<close> or \<open>topicId\<close> other than
  the arguments. Then the first \<open>updateCourseProgress\<close> appends one row, the second adds
  no row, and afterwards exactly one row exists for \<open>(userId, topicId)\<close>: it has the id
  drawn by the insert, each field from the second \<open>updates\<close> where given, else from the
  first, else the column default, and \<open>lastAccessed\<close> is the time of the second call.
\<close>

theorem updateCourseProgress_twice_one_row:
  assumes "filter (\<lambda>p. cp_userId p = userId \<and> cp_topicId p = topicId) (courseProgress db) = []"
    and "orElse (pcp_userId first) userId = userId" and "orElse (pcp_topicId first) topicId = topicId"
    and "orElse (pcp_userId second) userId = userId" and "orElse (pcp_topicId second) topicId = topicId"
  shows "courseProgress (fst (updateCourseProgress db userId topicId first now1))
           = courseProgress db @ [newCourseProgress db userId topicId first now1]
         \<and> length (courseProgress (fst (updateCourseProgress
               (fst (updateCourseProgress db userId topicId first now1)) userId topicId second now2)))
           = length (courseProgress db) + 1
         \<and> filter (\<lambda>p. cp_userId p = userId \<and> cp_topicId p = topicId)
             (courseProgress (fst (updateCourseProgress
               (fst (updateCourseProgress db userId topicId first now1)) userId topicId second now2)))
           = [\<lparr>cp_id = courseProgressSeq db, cp_userId = userId, cp_topicId = topicId,
               cp_score = orElse (pcp_score second)
                 (orElse (pcp_score first) (cpd_score (courseProgressDefaults db))),
               cp_questionsCorrect = orElse (pcp_questionsCorrect second)
                 (orElse (pcp_questionsCorrect first) (cpd_questionsCorrect (courseProgressDefaults db))),
               cp_questionsTotal = orElse (pcp_questionsTotal second)
                 (orElse (pcp_questionsTotal first) (cpd_questionsTotal (courseProgressDefaults db))),
               cp_completed = orElse (pcp_completed second)
                 (orElse (pcp_completed first) (cpd_completed (courseProgressDefaults db))),
               cp_difficulty = orElse (pcp_difficulty second)
                 (orElse (pcp_difficulty first) (cpd_difficulty (courseProgressDefaults db))),
               cp_lastAccessed = now2\<rparr>]"
proof -
  let ?wanted = "\<lambda>p. cp_userId p = userId \<and> cp_topicId p = topicId"
  let ?new = "newCourseProgress db userId topicId first now1"
  let ?db1 = "fst (updateCourseProgress db userId topicId first now1)"
  have rows1: "courseProgress ?db1 = courseProgress db @ [?new]"
    by (rule updateCourseProgress_insert_branch [OF assms(1)])
  have new_wanted: "?wanted ?new"
    using assms(2,3) by (simp add: newCourseProgress_def)
  have found: "filter ?wanted (courseProgress ?db1) = [?new]"
    using assms(1) new_wanted by (simp add: rows1)
  then have "filter ?wanted (courseProgress ?db1) \<noteq> []" by simp
  then have rows2: "courseProgress (fst (updateCourseProgress ?db1 userId topicId second now2))
      = map (\<lambda>p. if ?wanted p then setCourseProgress second now2 p else p) (courseProgress ?db1)"
    by (rule updateCourseProgress_update_branch)
  have keep: "?wanted (setCourseProgress second now2 p) = ?wanted p" if "?wanted p" for p
    using that assms(4,5) by (simp add: setCourseProgress_def)
  have untouched: "filter ?wanted (map (\<lambda>p. if ?wanted p then setCourseProgress second now2 p else p) rows)
      = map (setCourseProgress second now2) (filter ?wanted rows)" for rows
    using keep by (induction rows) auto
  have "filter ?wanted (courseProgress (fst (updateCourseProgress ?db1 userId topicId second now2)))
      = [setCourseProgress second now2 ?new]"
    unfolding rows2 untouched found by simp
  moreover have "setCourseProgress second now2 ?new
      = \<lparr>cp_id = courseProgressSeq db, cp_userId = userId, cp_topicId = topicId,
               cp_score = orElse (pcp_score second)
                 (orElse (pcp_score first) (cpd_score (courseProgressDefaults db))),
               cp_questionsCorrect = orElse (pcp_questionsCorrect second)
                 (orElse (pcp_questionsCorrect first) (cpd_questionsCorrect (courseProgressDefaults db))),
               cp_questionsTotal = orElse (pcp_questionsTotal second)
                 (orElse (pcp_questionsTotal first) (cpd_questionsTotal (courseProgressDefaults db))),
               cp_completed = orElse (pcp_completed second)
                 (orElse (pcp_completed first) (cpd_completed (courseProgressDefaults db))),
               cp_difficulty = orElse (pcp_difficulty second)
                 (orElse (pcp_difficulty first) (cpd_difficulty (courseProgressDefaults db))),
               cp_lastAccessed = now2\<rparr>"
    using assms(2-5) by (simp add: setCourseProgress_def newCourseProgress_def)
  moreover have "length (courseProgress (fst (updateCourseProgress ?db1 userId topicId second now2)))
      = length (courseProgress db) + 1"
    unfolding rows2 by (simp add: rows1)
  ultimately show ?thesis
    using rows1 by simp
qed

theorem updateCourseProgress_twice_one_row_witness:
  "filter (\<lambda>p. cp_userId p = 1 \<and> cp_topicId p = ''algebra'') (courseProgress db0) = []
   \<and> orElse (pcp_userId (scoreOnly 80)) 1 = 1
   \<and> orElse (pcp_topicId (scoreOnly 80)) ''algebra'' = ''algebra''
   \<and> map (\<lambda>p. (cp_score p, cp_lastAccessed p))
       (filter (\<lambda>p. cp_userId p = 1 \<and> cp_topicId p = ''algebra'')
         (courseProgress (fst (updateCourseProgress
            (fst (updateCourseProgress db0 1 ''algebra'' (scoreOnly 80) 1000))
            1 ''algebra'' (scoreOnly 80) 2000))))
      = [(80, 2000)]"
proof -
  have k: "orElse (pcp_userId (scoreOnly 80)) 1 = 1"
    "orElse (pcp_topicId (scoreOnly 80)) ''algebra'' = ''algebra''"
    by (simp_all add: scoreOnly_def orElse_def)
  from updateCourseProgress_twice_one_row [OF no_algebra_db0 k k, of 1000 2000]
  show ?thesis
    using no_algebra_db0 k by (simp add: scoreOnly_def orElse_def)
qed

text \<open>
  C7 as stated, for every \<open>updates\<close>, fails: \<open>values({userId, topicId, ...updates})\<close>
  lets a \<open>topicId\<close> in \<open>updates\<close> replace the argument. With \<open>updates\<close> carrying
  \<open>topicId = 'geometry'\<close>, two calls for \<open>(1, 'algebra')\<close> both insert: no row exists
  for \<open>(1, 'algebra')\<close> afterwards, and two exist for \<open>(1, 'geometry')\<close>.
\<close>

theorem updateCourseProgress_twice_counterexample:
  "getCourseProgress db0 1 (Some ''algebra'') = []
   \<and> getCourseProgress
        (fst (updateCourseProgress (fst (updateCourseProgress db0 1 ''algebra'' retopic 1000))
                1 ''algebra'' retopic 2000))
        1 (Some ''algebra'') = []
   \<and> map cp_id (getCourseProgress
        (fst (updateCourseProgress (fst (updateCourseProgress db0 1 ''algebra'' retopic 1000))
                1 ''algebra'' retopic 2000))
        1 (Some ''geometry'')) = [1, 2]"
  by (simp add: getCourseProgress_def updateCourseProgress_def newCourseProgress_def
      retopic_def scoreOnly_def db0_def orElse_def Let_def)

section \<open>Practice questions\<close>

text \<open>
  C10. \<open>getPracticeQuestions\<close> with difficulty 0 returns what it returns with the
  difficulty omitted: every practice question of the topic, whatever its difficulty.
\<close>

theorem getPracticeQuestions_zero_difficulty:
  "getPracticeQuestions db topicId (Some 0) = getPracticeQuestions db topicId None
   \<and> getPracticeQuestions db topicId (Some 0)
       = filter (\<lambda>q. pq_topicId q = topicId) (practiceQuestions db)"
  by (simp add: getPracticeQuestions_def)

theorem getPracticeQuestions_zero_difficulty_witness:
  "map pq_id (getPracticeQuestions dbQuestions ''algebra'' (Some 0)) = [1, 3, 4]
   \<and> map pq_id (getPracticeQuestions dbQuestions ''algebra'' None) = [1, 3, 4]"
  using getPracticeQuestions_zero_difficulty [of dbQuestions "''algebra''", THEN conjunct1]
  by (simp add: algebra_dbQuestions)

end
